theory Spec2Isabelle
  imports Complex_Main "HOL-Library.Multiset" "HOL-Library.Option_ord"
begin

section \<open>Data model\<close>

text \<open>
  The \<^verbatim>\<open>ScanRecord\<close> interface and the \<^verbatim>\<open>scans\<close> table. A JavaScript value that is
  \<^verbatim>\<open>null\<close> or \<^verbatim>\<open>undefined\<close>, and an SQL \<^verbatim>\<open>NULL\<close>, are \<open>None\<close>. Numbers are
  \<open>real\<close> (no arithmetic is done on them; the code only tests them for truthiness and
  stores them), integers are \<open>int\<close>. \<open>scan_fields\<close> is
  \<^verbatim>\<open>Omit<ScanRecord, 'id' | 'created_at'>\<close>; an object with further properties is a value
  of the record scheme \<open>'a scan_fields_scheme\<close>. The column \<^verbatim>\<open>id\<close> is \<open>scan_id\<close>.
\<close>

record scan_fields =
  qr_data :: "string option"
  latitude :: "real option"
  longitude :: "real option"
  altitude :: "real option"
  accuracy :: "real option"
  timestamp :: "int option"

record ScanRecord = scan_fields +
  scan_id :: int
  created_at :: string

text \<open>
  The database file: the table \<^verbatim>\<open>scans\<close> is absent (\<open>None\<close>) or holds its rows in rowid
  order together with the \<^verbatim>\<open>sqlite_sequence\<close> entry that \<^verbatim>\<open>AUTOINCREMENT\<close> keeps.
\<close>

record scans_table =
  rows :: "ScanRecord list"
  sqlite_sequence :: int

type_synonym database = "scans_table option"

definition rows_of :: "database \<Rightarrow> ScanRecord list" where
  "rows_of db = (case db of None \<Rightarrow> [] | Some t \<Rightarrow> rows t)"

text \<open>What the code can throw or reject with; \<open>message_of\<close> is \<^verbatim>\<open>error.message\<close>.\<close>

datatype exn =
    NoSuchTable
  | NotNullConstraint string
  | DatabaseFull
  | NoInsertId
  | SyntaxError string
  | TypeError string
  | Error string

fun message_of :: "exn \<Rightarrow> string" where
  "message_of NoSuchTable = ''no such table: scans''"
| "message_of (NotNullConstraint c) = ''NOT NULL constraint failed: scans.'' @ c"
| "message_of DatabaseFull = ''database or disk is full''"
| "message_of NoInsertId =
     ''No se obtuvo ID de inserci'' @ [char_of (195::nat), char_of (179::nat)] @ ''n''"
| "message_of (SyntaxError m) = m"
| "message_of (TypeError m) = m"
| "message_of (Error m) = m"

section \<open>JavaScript numbers as ids\<close>

text \<open>
  The JavaScript numbers that an id can be: \<^verbatim>\<open>NaN\<close>, the two infinities, and the doubles
  with an integer value (\<^verbatim>\<open>-0\<close> is \<open>Number 0\<close>: the code and the database treat the two
  alike). \<open>to_number\<close> is the number value of a mathematical integer: the nearest double,
  the even one of two nearest, and an infinity beyond the largest double. A double has 53
  significant bits, and \<open>bitlength\<close> counts the bits of a natural number.
\<close>

datatype number = NaN | Infinity | MinusInfinity | Number int

definition isNaN :: "number \<Rightarrow> bool" where
  "isNaN x = (x = NaN)"

fun bitlength :: "nat \<Rightarrow> nat" where
  "bitlength n = (if n = 0 then 0 else Suc (bitlength (n div 2)))"

definition round_to_double :: "nat \<Rightarrow> nat option" where
  "round_to_double m =
     (if m < 9007199254740992 then Some m
      else
        (let e = bitlength m - 53;
             q = m div 2 ^ e;
             r = m mod 2 ^ e;
             q' = (if 2 ^ e < 2 * r \<or> (2 * r = 2 ^ e \<and> odd q) then q + 1 else q)
         in if 2 ^ 1024 \<le> q' * 2 ^ e then None else Some (q' * 2 ^ e)))"

definition to_number :: "int \<Rightarrow> number" where
  "to_number i =
     (case round_to_double (nat \<bar>i\<bar>) of
        None \<Rightarrow> (if i < 0 then MinusInfinity else Infinity)
      | Some m \<Rightarrow> Number (if i < 0 then - int m else int m))"

section \<open>The SQL statements\<close>

text \<open>
  Each statement is a function of the database state. It fails for the reasons that the
  state gives (the table is missing, a \<^verbatim>\<open>NOT NULL\<close> column would be \<^verbatim>\<open>NULL\<close>, the rowids
  are used up); failures of the device under the database file are outside the model.
  The id that a statement is given is a number: a row matches when its integer id has
  that value, so no row matches an infinity.
\<close>

text \<open>\<^verbatim>\<open>CREATE TABLE IF NOT EXISTS scans (...)\<close>\<close>

definition create_table_if_not_exists :: "database \<Rightarrow> exn + database" where
  "create_table_if_not_exists db =
     (case db of
        None \<Rightarrow> Inr (Some \<lparr>rows = [], sqlite_sequence = 0\<rparr>)
      | Some t \<Rightarrow> Inr (Some t))"

text \<open>\<^verbatim>\<open>SELECT * FROM scans WHERE id = ?\<close> (and \<^verbatim>\<open>SELECT id FROM scans WHERE id = ?\<close>)\<close>

definition select_where_id :: "database \<Rightarrow> number \<Rightarrow> exn + ScanRecord list" where
  "select_where_id db i =
     (case db of
        None \<Rightarrow> Inl NoSuchTable
      | Some t \<Rightarrow> Inr (filter (\<lambda>r. Number (scan_id r) = i) (rows t)))"

text \<open>
  \<^verbatim>\<open>SELECT * FROM scans ORDER BY timestamp DESC\<close>. \<^verbatim>\<open>NULL\<close> sorts below every value, as
  \<open>None\<close> does in the order on \<open>int option\<close>. SQL leaves the order of rows with equal
  keys open; here they keep their rowid order.
\<close>

fun insert_desc :: "ScanRecord \<Rightarrow> ScanRecord list \<Rightarrow> ScanRecord list" where
  "insert_desc r [] = [r]"
| "insert_desc r (x # xs) =
     (if timestamp x \<le> timestamp r then r # x # xs else x # insert_desc r xs)"

fun order_by_timestamp_desc :: "ScanRecord list \<Rightarrow> ScanRecord list" where
  "order_by_timestamp_desc [] = []"
| "order_by_timestamp_desc (r # rs) = insert_desc r (order_by_timestamp_desc rs)"

definition select_order_by_timestamp_desc :: "database \<Rightarrow> exn + ScanRecord list" where
  "select_order_by_timestamp_desc db =
     (case db of
        None \<Rightarrow> Inl NoSuchTable
      | Some t \<Rightarrow> Inr (order_by_timestamp_desc (rows t)))"

text \<open>
  \<^verbatim>\<open>INSERT INTO scans (qr_data, latitude, longitude, altitude, accuracy, timestamp)
  VALUES (?, ?, ?, ?, ?, ?)\<close> with \<^verbatim>\<open>id INTEGER PRIMARY KEY AUTOINCREMENT\<close>: the new rowid is
  one more than the largest rowid of the table and than the \<^verbatim>\<open>sqlite_sequence\<close> entry; the
  statement fails when that is the largest 64-bit integer, and when a \<^verbatim>\<open>NOT NULL\<close> column
  would hold \<^verbatim>\<open>NULL\<close>. \<open>now\<close> is \<^verbatim>\<open>CURRENT_TIMESTAMP\<close>, the default of \<^verbatim>\<open>created_at\<close>. The
  result is the \<^verbatim>\<open>insertId\<close> and the new state.
\<close>

fun largest_rowid :: "ScanRecord list \<Rightarrow> int" where
  "largest_rowid [] = 0"
| "largest_rowid [r] = scan_id r"
| "largest_rowid (r # rs) = max (scan_id r) (largest_rowid rs)"

definition MAX_ROWID :: int where
  "MAX_ROWID = 9223372036854775807"

definition insert_into_scans ::
  "string \<Rightarrow> database \<Rightarrow> scan_fields \<Rightarrow> exn + (int \<times> database)" where
  "insert_into_scans now db v =
     (case db of
        None \<Rightarrow> Inl NoSuchTable
      | Some t \<Rightarrow>
          (let largest = max (largest_rowid (rows t)) (sqlite_sequence t) in
           if MAX_ROWID \<le> largest then Inl DatabaseFull
           else if qr_data v = None then Inl (NotNullConstraint ''qr_data'')
           else if timestamp v = None then Inl (NotNullConstraint ''timestamp'')
           else
             Inr (largest + 1,
                  Some \<lparr>rows = rows t @
                          [\<lparr>qr_data = qr_data v, latitude = latitude v,
                            longitude = longitude v, altitude = altitude v,
                            accuracy = accuracy v, timestamp = timestamp v,
                            scan_id = largest + 1, created_at = now\<rparr>],
                        sqlite_sequence = largest + 1\<rparr>)))"

text \<open>\<^verbatim>\<open>DELETE FROM scans WHERE id = ?\<close>; the result is the number of rows removed.\<close>

definition delete_where_id :: "database \<Rightarrow> number \<Rightarrow> exn + (nat \<times> database)" where
  "delete_where_id db i =
     (case db of
        None \<Rightarrow> Inl NoSuchTable
      | Some t \<Rightarrow>
          Inr (length (filter (\<lambda>r. Number (scan_id r) = i) (rows t)),
               Some (t\<lparr>rows := filter (\<lambda>r. Number (scan_id r) \<noteq> i) (rows t)\<rparr>)))"

text \<open>
  \<^verbatim>\<open>UPDATE scans SET qr_data = COALESCE(?, qr_data), latitude = COALESCE(?, latitude),
  longitude = COALESCE(?, longitude), altitude = COALESCE(?, altitude),
  accuracy = COALESCE(?, accuracy) WHERE id = ?\<close>; the result is the number of rows matched.
  The statement fails as a whole when a new \<^verbatim>\<open>qr_data\<close> would be \<^verbatim>\<open>NULL\<close>.
\<close>

definition COALESCE :: "'a option \<Rightarrow> 'a option \<Rightarrow> 'a option" where
  "COALESCE a b = (case a of None \<Rightarrow> b | Some x \<Rightarrow> Some x)"

definition set_coalesce ::
  "string option \<Rightarrow> real option \<Rightarrow> real option \<Rightarrow> real option \<Rightarrow> real option \<Rightarrow>
   ScanRecord \<Rightarrow> ScanRecord" where
  "set_coalesce p1 p2 p3 p4 p5 r =
     r\<lparr>qr_data := COALESCE p1 (qr_data r),
       latitude := COALESCE p2 (latitude r),
       longitude := COALESCE p3 (longitude r),
       altitude := COALESCE p4 (altitude r),
       accuracy := COALESCE p5 (accuracy r)\<rparr>"

definition update_coalesce_where_id ::
  "database \<Rightarrow> string option \<Rightarrow> real option \<Rightarrow> real option \<Rightarrow> real option \<Rightarrow> real option \<Rightarrow>
   number \<Rightarrow> exn + (nat \<times> database)" where
  "update_coalesce_where_id db p1 p2 p3 p4 p5 i =
     (case db of
        None \<Rightarrow> Inl NoSuchTable
      | Some t \<Rightarrow>
          (let rs = map (\<lambda>r. if Number (scan_id r) = i then set_coalesce p1 p2 p3 p4 p5 r else r)
                      (rows t)
           in if list_ex (\<lambda>r. Number (scan_id r) = i \<and> qr_data r = None) rs
              then Inl (NotNullConstraint ''qr_data'')
              else Inr (length (filter (\<lambda>r. Number (scan_id r) = i) (rows t)),
                        Some (t\<lparr>rows := rs\<rparr>))))"

section \<open>JavaScript operators\<close>

text \<open>
  \<^verbatim>\<open>x || null\<close>: a falsy \<^verbatim>\<open>x\<close> (\<^verbatim>\<open>undefined\<close>, \<^verbatim>\<open>null\<close>, the number 0, the empty string)
  gives \<^verbatim>\<open>null\<close>. \<^verbatim>\<open>x ?? null\<close>: only \<^verbatim>\<open>undefined\<close> and \<^verbatim>\<open>null\<close> give \<^verbatim>\<open>null\<close>.
\<close>

definition or_null_num :: "real option \<Rightarrow> real option" where
  "or_null_num x = (case x of None \<Rightarrow> None | Some n \<Rightarrow> if n = 0 then None else Some n)"

definition or_null_str :: "string option \<Rightarrow> string option" where
  "or_null_str x = (case x of None \<Rightarrow> None | Some s \<Rightarrow> if s = [] then None else Some s)"

definition nullish_null :: "'a option \<Rightarrow> 'a option" where
  "nullish_null x = (case x of None \<Rightarrow> None | Some v \<Rightarrow> Some v)"

section \<open>The persistence module over the WebSQL-style transaction API\<close>

text \<open>
  The simpler of the two persistence modules; its functions carry the suffix \<open>_p2\<close>. A
  promise that rejects is \<open>Inl\<close>, one that resolves is \<open>Inr\<close>; each function returns the
  database it leaves behind as well. The database handle is taken to have the
  \<^verbatim>\<open>transaction\<close> and \<^verbatim>\<open>executeSql\<close> interface that the code calls: a statement runs, then
  its success callback or its error callback.
\<close>

definition initDatabase_p2 :: "database \<Rightarrow> database" where
  "initDatabase_p2 db =
     (case create_table_if_not_exists db of Inl e \<Rightarrow> db | Inr db' \<Rightarrow> db')"

definition getScans_p2 :: "database \<Rightarrow> exn + ScanRecord list" where
  "getScans_p2 db =
     (case select_order_by_timestamp_desc db of Inl e \<Rightarrow> Inl e | Inr rs \<Rightarrow> Inr rs)"

definition addScan_p2 ::
  "string \<Rightarrow> database \<Rightarrow> 'a scan_fields_scheme \<Rightarrow> (exn + ScanRecord option) \<times> database" where
  "addScan_p2 now db scanData =
     (case insert_into_scans now db
             \<lparr>qr_data = qr_data scanData,
              latitude = or_null_num (latitude scanData),
              longitude = or_null_num (longitude scanData),
              altitude = or_null_num (altitude scanData),
              accuracy = or_null_num (accuracy scanData),
              timestamp = timestamp scanData\<rparr> of
        Inl e \<Rightarrow> (Inl e, db)
      | Inr (insertId, db') \<Rightarrow>
          (case select_where_id db' (Number insertId) of
             Inl e \<Rightarrow> (Inl e, db')
           | Inr rs \<Rightarrow> (Inr (case rs of [] \<Rightarrow> None | r # _ \<Rightarrow> Some r), db')))"

definition deleteScan_p2 :: "database \<Rightarrow> int \<Rightarrow> (exn + bool) \<times> database" where
  "deleteScan_p2 db i =
     (case delete_where_id db (Number i) of
        Inl e \<Rightarrow> (Inr False, db)
      | Inr (n, db') \<Rightarrow> (Inr True, db'))"

section \<open>The persistence module with initialisation guards\<close>

text \<open>
  The second persistence module (\<^verbatim>\<open>scans+api.tsx\<close>); its functions carry the suffix
  \<open>_p3\<close>. Every operation awaits \<open>initDatabase_p3\<close> first.
\<close>

definition initDatabase_p3 :: "database \<Rightarrow> (exn + unit) \<times> database" where
  "initDatabase_p3 db =
     (case create_table_if_not_exists db of
        Inl e \<Rightarrow> (Inl e, db)
      | Inr db' \<Rightarrow> (Inr (), db'))"

definition getScans_p3 :: "database \<Rightarrow> (exn + ScanRecord list) \<times> database" where
  "getScans_p3 db =
     (case initDatabase_p3 db of
        (Inl e, db1) \<Rightarrow> (Inl e, db1)
      | (Inr u, db1) \<Rightarrow>
          (case select_order_by_timestamp_desc db1 of
             Inl e \<Rightarrow> (Inl e, db1)
           | Inr rs \<Rightarrow> (Inr rs, db1)))"

definition addScan_p3 ::
  "string \<Rightarrow> database \<Rightarrow> 'a scan_fields_scheme \<Rightarrow> (exn + int) \<times> database" where
  "addScan_p3 now db scanData =
     (case initDatabase_p3 db of
        (Inl e, db1) \<Rightarrow> (Inl e, db1)
      | (Inr u, db1) \<Rightarrow>
          (case insert_into_scans now db1
                  \<lparr>qr_data = qr_data scanData,
                   latitude = nullish_null (latitude scanData),
                   longitude = nullish_null (longitude scanData),
                   altitude = nullish_null (altitude scanData),
                   accuracy = nullish_null (accuracy scanData),
                   timestamp = timestamp scanData\<rparr> of
             Inl e \<Rightarrow> (Inl e, db1)
           | Inr (insertId, db2) \<Rightarrow>
               (if insertId \<noteq> 0 then (Inr insertId, db2) else (Inl NoInsertId, db2))))"

definition deleteScan_p3 :: "database \<Rightarrow> int \<Rightarrow> (exn + bool) \<times> database" where
  "deleteScan_p3 db i =
     (case initDatabase_p3 db of
        (Inl e, db1) \<Rightarrow> (Inl e, db1)
      | (Inr u, db1) \<Rightarrow>
          (case delete_where_id db1 (Number i) of
             Inl e \<Rightarrow> (Inl e, db1)
           | Inr (n, db2) \<Rightarrow> (Inr (0 < n), db2)))"

section \<open>The route handlers of \<^verbatim>\<open>/scans/{id}\<close>\<close>

text \<open>
  \<^verbatim>\<open>parseInt(id)\<close> with no radix, after ECMAScript: leading white space is dropped, then a
  sign, then a \<^verbatim>\<open>0x\<close> or \<^verbatim>\<open>0X\<close> prefix (which makes the radix 16); the longest prefix of
  digits of the radix is read as an integer, and everything after it is ignored. No digit
  at all gives \<^verbatim>\<open>NaN\<close>; otherwise the result is the number value of the integer, that is
  the integer rounded to a double. A string is a list of code units below 256, so the
  white space here is what ECMAScript has in that range.
\<close>

definition StrWhiteSpaceChar :: "char \<Rightarrow> bool" where
  "StrWhiteSpaceChar c = ((of_char c :: nat) \<in> {9, 10, 11, 12, 13, 32, 160})"

definition digit_value :: "char \<Rightarrow> nat option" where
  "digit_value c =
     (let n = (of_char c :: nat) in
      if 48 \<le> n \<and> n \<le> 57 then Some (n - 48)
      else if 97 \<le> n \<and> n \<le> 122 then Some (n - 87)
      else if 65 \<le> n \<and> n \<le> 90 then Some (n - 55)
      else None)"

definition radix_digit :: "nat \<Rightarrow> char \<Rightarrow> bool" where
  "radix_digit R c = (case digit_value c of None \<Rightarrow> False | Some d \<Rightarrow> d < R)"

definition digits_to_nat :: "nat \<Rightarrow> string \<Rightarrow> nat" where
  "digits_to_nat R Z =
     foldl (\<lambda>n c. n * R + (case digit_value c of None \<Rightarrow> 0 | Some d \<Rightarrow> d)) 0 Z"

definition parseInt :: "string \<Rightarrow> number" where
  "parseInt string =
     (let S = dropWhile StrWhiteSpaceChar string;
          sign = (if take 1 S = ''-'' then - 1 else 1 :: int);
          S1 = (if take 1 S = ''+'' \<or> take 1 S = ''-'' then drop 1 S else S);
          hex = (take 2 S1 = ''0x'' \<or> take 2 S1 = ''0X'');
          R = (if hex then 16 else 10);
          S2 = (if hex then drop 2 S1 else S1);
          Z = takeWhile (radix_digit R) S2
      in if Z = [] then NaN else to_number (sign * int (digits_to_nat R Z)))"

text \<open>The JSON envelope of a response; a property that is not set is \<open>None\<close>.\<close>

record envelope =
  success :: bool
  error :: "string option"
  message :: "string option"
  scan :: "ScanRecord option"
  deletedId :: "number option"
  changes :: "nat option"

record response =
  status :: nat
  body :: envelope

definition json :: "nat \<Rightarrow> envelope \<Rightarrow> response" where
  "json st e = \<lparr>status = st, body = e\<rparr>"

definition failure :: "string \<Rightarrow> envelope" where
  "failure e =
     \<lparr>success = False, error = Some e, message = None, scan = None,
      deletedId = None, changes = None\<rparr>"

definition failure_message :: "string \<Rightarrow> exn \<Rightarrow> envelope" where
  "failure_message e x =
     \<lparr>success = False, error = Some e, message = Some (message_of x), scan = None,
      deletedId = None, changes = None\<rparr>"

text \<open>
  A handler returns its response, the database it leaves behind and the statements it
  prepared, in order. The \<open>_try\<close> function is the body of the handler's \<^verbatim>\<open>try\<close> block,
  \<open>Inl\<close> where it throws; the handler itself adds the \<^verbatim>\<open>catch\<close>.
\<close>

datatype statement = Select number | Delete number | Update number

definition GET_try ::
  "database \<Rightarrow> string \<Rightarrow> (exn + response) \<times> database \<times> statement list" where
  "GET_try db id_param =
     (let scanId = parseInt id_param in
      if isNaN scanId then (Inr (json 400 (failure ''Invalid scan ID'')), db, [])
      else
          (case select_where_id db scanId of
             Inl e \<Rightarrow> (Inl e, db, [Select scanId])
           | Inr [] \<Rightarrow> (Inr (json 404 (failure ''Scan not found'')), db, [Select scanId])
           | Inr (row # _) \<Rightarrow>
               (Inr (json 200
                      \<lparr>success = True, error = None, message = None, scan = Some row,
                       deletedId = None, changes = None\<rparr>),
                db, [Select scanId])))"

definition GET :: "database \<Rightarrow> string \<Rightarrow> response \<times> database \<times> statement list" where
  "GET db id_param =
     (case GET_try db id_param of
        (Inr r, db', ps) \<Rightarrow> (r, db', ps)
      | (Inl e, db', ps) \<Rightarrow> (json 500 (failure_message ''Failed to fetch scan'' e), db', ps))"

definition DELETE_try ::
  "database \<Rightarrow> string \<Rightarrow> (exn + response) \<times> database \<times> statement list" where
  "DELETE_try db id_param =
     (let scanId = parseInt id_param in
      if isNaN scanId then (Inr (json 400 (failure ''Invalid scan ID'')), db, [])
      else
          (case select_where_id db scanId of
             Inl e \<Rightarrow> (Inl e, db, [Select scanId])
           | Inr [] \<Rightarrow> (Inr (json 404 (failure ''Scan not found'')), db, [Select scanId])
           | Inr (existingScan # _) \<Rightarrow>
               (case delete_where_id db scanId of
                  Inl e \<Rightarrow> (Inl e, db, [Select scanId, Delete scanId])
                | Inr (n, db') \<Rightarrow>
                    (Inr (json 200
                           \<lparr>success = True, error = None,
                            message = Some ''Scan deleted successfully'', scan = None,
                            deletedId = Some scanId, changes = Some n\<rparr>),
                     db', [Select scanId, Delete scanId]))))"

definition DELETE :: "database \<Rightarrow> string \<Rightarrow> response \<times> database \<times> statement list" where
  "DELETE db id_param =
     (case DELETE_try db id_param of
        (Inr r, db', ps) \<Rightarrow> (r, db', ps)
      | (Inl e, db', ps) \<Rightarrow> (json 500 (failure_message ''Failed to delete scan'' e), db', ps))"

text \<open>
  The request body of \<^verbatim>\<open>PUT\<close>: \<^verbatim>\<open>request.json()\<close> rejects (\<open>Malformed\<close>, with the message of
  its \<^verbatim>\<open>SyntaxError\<close>), or gives \<^verbatim>\<open>null\<close>, or gives a value whose properties can be read.
  The properties the handler reads have the types of \<^verbatim>\<open>ScanRecord\<close> where they are set.
\<close>

datatype 'a json_body = Malformed string | JsonNull | JsonObject 'a

definition PUT_try ::
  "database \<Rightarrow> string \<Rightarrow> 'a scan_fields_scheme json_body \<Rightarrow>
   (exn + response) \<times> database \<times> statement list" where
  "PUT_try db id_param request =
     (let scanId = parseInt id_param in
      if isNaN scanId then (Inr (json 400 (failure ''Invalid scan ID'')), db, [])
      else
          (case request of
             Malformed m \<Rightarrow> (Inl (SyntaxError m), db, [])
           | _ \<Rightarrow>
               (case select_where_id db scanId of
                  Inl e \<Rightarrow> (Inl e, db, [Select scanId])
                | Inr [] \<Rightarrow> (Inr (json 404 (failure ''Scan not found'')), db, [Select scanId])
                | Inr (existingScan # _) \<Rightarrow>
                    (case request of
                       JsonObject b \<Rightarrow>
                         (case update_coalesce_where_id db
                                 (or_null_str (qr_data b))
                                 (or_null_num (latitude b))
                                 (or_null_num (longitude b))
                                 (or_null_num (altitude b))
                                 (or_null_num (accuracy b))
                                 scanId of
                            Inl e \<Rightarrow> (Inl e, db, [Select scanId, Update scanId])
                          | Inr (n, db') \<Rightarrow>
                              (case select_where_id db' scanId of
                                 Inl e \<Rightarrow>
                                   (Inl e, db', [Select scanId, Update scanId, Select scanId])
                               | Inr rs \<Rightarrow>
                                   (Inr (json 200
                                          \<lparr>success = True, error = None,
                                           message = Some ''Scan updated successfully'',
                                           scan = (case rs of [] \<Rightarrow> None | r # _ \<Rightarrow> Some r),
                                           deletedId = None, changes = Some n\<rparr>),
                                    db', [Select scanId, Update scanId, Select scanId])))
                     | _ \<Rightarrow>
                         (Inl (TypeError ''Cannot read properties of null (reading 'qr_data')''),
                          db, [Select scanId, Update scanId])))))"

definition PUT ::
  "database \<Rightarrow> string \<Rightarrow> 'a scan_fields_scheme json_body \<Rightarrow>
   response \<times> database \<times> statement list" where
  "PUT db id_param request =
     (case PUT_try db id_param request of
        (Inr r, db', ps) \<Rightarrow> (r, db', ps)
      | (Inl e, db', ps) \<Rightarrow> (json 500 (failure_message ''Failed to update scan'' e), db', ps))"

section \<open>The capture screen\<close>

text \<open>
  \<^verbatim>\<open>Location.LocationObject\<close>, with \<^verbatim>\<open>location.coords.latitude\<close> as \<open>coords_latitude\<close>, and
  the screen's \<^verbatim>\<open>ScanResult\<close>, whose \<^verbatim>\<open>timestamp\<close> is \<open>scan_timestamp\<close>.
\<close>

record LocationObject =
  coords_latitude :: real
  coords_longitude :: real
  coords_altitude :: "real option"
  coords_accuracy :: "real option"

record ScanResult =
  data :: string
  location :: "LocationObject option"
  scan_timestamp :: int

text \<open>The React state of the screen that the handler reads and sets.\<close>

record screen_state =
  locationPermission :: bool
  current_location :: "LocationObject option"
  lastScan :: "ScanResult option"
  scanCount :: nat

text \<open>
  What the handler does to the outside: console output, an alert dialog, the notification
  banner, and the request it sends.
\<close>

datatype event =
    ConsoleError string exn
  | ConsoleLog string string
  | Alert string string
  | ShowNotification string
  | Fetch string string scan_fields

text \<open>
  What \<^verbatim>\<open>fetch\<close> does with the request: it rejects, or it gives a response with its \<^verbatim>\<open>ok\<close>
  flag and the outcome of \<^verbatim>\<open>response.json()\<close>.
\<close>

datatype fetch_result = FetchRejects exn | FetchResponse bool "exn + string"

text \<open>What the handler's surroundings give it on one call.\<close>

record environment =
  getCurrentPositionAsync :: "exn + LocationObject"
  Date_now :: int
  fetch :: fetch_result

text \<open>The two Spanish messages, in UTF-8.\<close>

definition scanned_message :: string where
  "scanned_message =
     ''C'' @ [char_of (195::nat), char_of (179::nat)] @ ''digo QR escaneado correctamente''"

definition not_processed_message :: string where
  "not_processed_message =
     ''No se pudo procesar el c'' @ [char_of (195::nat), char_of (179::nat)] @ ''digo QR''"

definition saveScanToDatabase_try :: "fetch_result \<Rightarrow> ScanResult \<Rightarrow> (exn + unit) \<times> event list" where
  "saveScanToDatabase_try f scanResult =
     (let requestBody =
            \<lparr>qr_data = Some (data scanResult),
             latitude = or_null_num (map_option coords_latitude (location scanResult)),
             longitude = or_null_num (map_option coords_longitude (location scanResult)),
             altitude = or_null_num (Option.bind (location scanResult) coords_altitude),
             accuracy = or_null_num (Option.bind (location scanResult) coords_accuracy),
             timestamp = Some (scan_timestamp scanResult)\<rparr>;
          sent = [Fetch ''/scans'' ''POST'' requestBody]
      in case f of
           FetchRejects e \<Rightarrow> (Inl e, sent)
         | FetchResponse ok parsed \<Rightarrow>
             (if \<not> ok then (Inl (Error ''Failed to save scan''), sent)
              else case parsed of
                     Inl e \<Rightarrow> (Inl e, sent)
                   | Inr result \<Rightarrow>
                       (Inr (), sent @ [ConsoleLog ''Scan saved successfully:'' result])))"

definition saveScanToDatabase :: "fetch_result \<Rightarrow> ScanResult \<Rightarrow> (exn + unit) \<times> event list" where
  "saveScanToDatabase f scanResult =
     (case saveScanToDatabase_try f scanResult of
        (Inl e, evs) \<Rightarrow> (Inr (), evs @ [ConsoleError ''Error saving scan:'' e])
      | (Inr u, evs) \<Rightarrow> (Inr (), evs))"

definition handleBarCodeScanned_try ::
  "environment \<Rightarrow> screen_state \<Rightarrow> string \<Rightarrow> (exn + unit) \<times> screen_state \<times> event list" where
  "handleBarCodeScanned_try env st d =
     (case (if locationPermission st
            then (case getCurrentPositionAsync env of
                    Inl e \<Rightarrow> Inl e
                  | Inr loc \<Rightarrow> Inr (Some loc, st\<lparr>current_location := Some loc\<rparr>))
            else Inr (current_location st, st)) of
        Inl e \<Rightarrow> (Inl e, st, [])
      | Inr (currentLocation, st1) \<Rightarrow>
          (let scanResult =
                 \<lparr>data = d, location = currentLocation, scan_timestamp = Date_now env\<rparr>;
               st2 = st1\<lparr>lastScan := Some scanResult, scanCount := scanCount st1 + 1\<rparr>
           in case saveScanToDatabase (fetch env) scanResult of
                (Inl e, evs) \<Rightarrow> (Inl e, st2, evs)
              | (Inr u, evs) \<Rightarrow> (Inr (), st2, evs @ [ShowNotification scanned_message])))"

definition handleBarCodeScanned ::
  "environment \<Rightarrow> screen_state \<Rightarrow> string \<Rightarrow> (exn + unit) \<times> screen_state \<times> event list" where
  "handleBarCodeScanned env st d =
     (case handleBarCodeScanned_try env st d of
        (Inl e, st', evs) \<Rightarrow>
          (Inr (), st',
           evs @ [ConsoleError ''Error handling scan:'' e, Alert ''Error'' not_processed_message])
      | (Inr u, st', evs) \<Rightarrow> (Inr (), st', evs))"

text \<open>
  The persistence call fails when \<^verbatim>\<open>fetch\<close> rejects, when the response is not \<^verbatim>\<open>ok\<close>,
  or when its body does not parse.
\<close>

definition persistence_fails :: "fetch_result \<Rightarrow> bool" where
  "persistence_fails f =
     (case f of
        FetchRejects e \<Rightarrow> True
      | FetchResponse ok parsed \<Rightarrow> (if ok then isl parsed else True))"

text \<open>What the user sees of a run: the alerts and the notification banner.\<close>

definition user_visible :: "event list \<Rightarrow> event list" where
  "user_visible evs =
     filter (\<lambda>ev. case ev of Alert t m \<Rightarrow> True | ShowNotification m \<Rightarrow> True | _ \<Rightarrow> False) evs"

section \<open>Invariants of the stored records\<close>

definition unique_ids :: "database \<Rightarrow> bool" where
  "unique_ids db = distinct (map scan_id (rows_of db))"

definition required_present :: "database \<Rightarrow> bool" where
  "required_present db =
     list_all (\<lambda>r. qr_data r \<noteq> None \<and> timestamp r \<noteq> None) (rows_of db)"

definition location_paired :: "database \<Rightarrow> bool" where
  "location_paired db =
     list_all (\<lambda>r. (latitude r = None) = (longitude r = None)) (rows_of db)"

text \<open>
  The ways in which an operation can change the rows of the table: it removes the rows
  with one id, it appends a row with a fresh id and both required columns set, or it
  rewrites the five coalesced columns of the rows with one id.
\<close>

definition removed :: "database \<Rightarrow> database \<Rightarrow> bool" where
  "removed db db' = (\<exists>i. rows_of db' = filter (\<lambda>r. Number (scan_id r) \<noteq> i) (rows_of db))"

definition appended :: "database \<Rightarrow> database \<Rightarrow> bool" where
  "appended db db' =
     (\<exists>r. scan_id r \<notin> scan_id ` set (rows_of db) \<and> qr_data r \<noteq> None \<and> timestamp r \<noteq> None
          \<and> rows_of db' = rows_of db @ [r])"

definition updated :: "database \<Rightarrow> database \<Rightarrow> bool" where
  "updated db db' =
     (\<exists>n p1 p2 p3 p4 p5.
        rows_of db' =
          map (\<lambda>r. if Number (scan_id r) = n then set_coalesce p1 p2 p3 p4 p5 r else r) (rows_of db)
        \<and> \<not> list_ex (\<lambda>r. Number (scan_id r) = n \<and> qr_data r = None) (rows_of db'))"

text \<open>
  One operation on the database: any call of a function of the two persistence modules or
  of a route handler. The reachable states are those that operations lead to from a
  database file without the table.
\<close>

inductive step :: "database \<Rightarrow> database \<Rightarrow> bool" where
  init_p2: "step db (initDatabase_p2 db)"
| init_p3: "step db (snd (initDatabase_p3 db))"
| list_p3: "step db (snd (getScans_p3 db))"
| create_p2: "step db (snd (addScan_p2 now db (scanData :: scan_fields)))"
| create_p3: "step db (snd (addScan_p3 now db (scanData :: scan_fields)))"
| delete_p2: "step db (snd (deleteScan_p2 db i))"
| delete_p3: "step db (snd (deleteScan_p3 db i))"
| route_get: "step db (fst (snd (GET db id_param)))"
| route_delete: "step db (fst (snd (DELETE db id_param)))"
| route_put: "step db (fst (snd (PUT db id_param (request :: scan_fields json_body))))"

inductive reachable :: "database \<Rightarrow> bool" where
  fresh: "reachable None"
| after: "reachable db \<Longrightarrow> step db db' \<Longrightarrow> reachable db'"

text \<open>
  A numeric string, as the specification uses the words for the path parameter: one or
  more decimal digits and nothing else.
\<close>

definition numeric_string :: "string \<Rightarrow> bool" where
  "numeric_string s = (s \<noteq> [] \<and> list_all (\<lambda>c. 48 \<le> (of_char c :: nat) \<and> (of_char c :: nat) \<le> 57) s)"

section \<open>Example data\<close>

text \<open>
  The scan of the specification's scenario, the same scan taken on the equator, and the
  table that holds the first as its only row.
\<close>

definition example_scan :: scan_fields where
  "example_scan =
     \<lparr>qr_data = Some ''https://example.com'', latitude = Some 40.4168,
      longitude = Some (- 3.7038), altitude = None, accuracy = None,
      timestamp = Some 1700000000000\<rparr>"

definition equator_scan :: scan_fields where
  "equator_scan =
     \<lparr>qr_data = Some ''https://example.com'', latitude = Some 0,
      longitude = Some (- 3.7038), altitude = None, accuracy = None,
      timestamp = Some 1700000000000\<rparr>"

definition example_row :: ScanRecord where
  "example_row =
     \<lparr>qr_data = Some ''https://example.com'', latitude = Some 40.4168,
      longitude = Some (- 3.7038), altitude = None, accuracy = None,
      timestamp = Some 1700000000000, scan_id = 1, created_at = ''2023-11-14 22:13:20''\<rparr>"

definition empty_table :: database where
  "empty_table = Some \<lparr>rows = [], sqlite_sequence = 0\<rparr>"

definition example_table :: database where
  "example_table = Some \<lparr>rows = [example_row], sqlite_sequence = 1\<rparr>"

text \<open>
  Rows that differ in id and timestamp, a table whose only row has the id \<open>2 ^ 53\<close>, and
  three rows whose timestamps are not in rowid order.
\<close>

definition row_at :: "int \<Rightarrow> int \<Rightarrow> ScanRecord" where
  "row_at i ts =
     \<lparr>qr_data = Some ''x'', latitude = None, longitude = None, altitude = None,
      accuracy = None, timestamp = Some ts, scan_id = i, created_at = ''2023-11-14 22:13:20''\<rparr>"

definition large_id_table :: database where
  "large_id_table =
     Some \<lparr>rows = [row_at 9007199254740992 10], sqlite_sequence = 9007199254740992\<rparr>"

definition three_rows :: scans_table where
  "three_rows = \<lparr>rows = [row_at 1 10, row_at 2 30, row_at 3 20], sqlite_sequence = 3\<rparr>"

text \<open>
  A request body that sets nothing, a scan without a location, a device whose requests
  fail and one whose requests succeed, and the screen before its first scan.
\<close>

definition empty_body :: scan_fields where
  "empty_body =
     \<lparr>qr_data = None, latitude = None, longitude = None, altitude = None,
      accuracy = None, timestamp = None\<rparr>"

definition unlocated_scan :: scan_fields where
  "unlocated_scan = empty_body\<lparr>qr_data := Some ''x'', timestamp := Some 1\<rparr>"

definition offline :: environment where
  "offline =
     \<lparr>getCurrentPositionAsync = Inl (Error ''Location request failed''), Date_now = 1700000000000,
      fetch = FetchRejects (TypeError ''Network request failed'')\<rparr>"

definition online :: environment where
  "online =
     \<lparr>getCurrentPositionAsync = Inl (Error ''Location request failed''), Date_now = 1700000000000,
      fetch = FetchResponse True (Inr ''{}'')\<rparr>"

definition unsaved_result :: ScanResult where
  "unsaved_result = \<lparr>data = ''abc'', location = None, scan_timestamp = 1700000000000\<rparr>"

definition initial_screen :: screen_state where
  "initial_screen =
     \<lparr>locationPermission = False, current_location = None, lastScan = None, scanCount = 0\<rparr>"

section \<open>Initialisation\<close>

lemma funpow_idem: "(\<And>x. f (f x) = f x) \<Longrightarrow> (f ^^ Suc n) x = f x"
  by (induction n) simp_all

lemma initDatabase_p2_cases:
  "initDatabase_p2 None = Some \<lparr>rows = [], sqlite_sequence = 0\<rparr>"
  "initDatabase_p2 (Some t) = Some t"
  by (simp_all add: initDatabase_p2_def create_table_if_not_exists_def)

lemma initDatabase_p3_cases:
  "initDatabase_p3 None = (Inr (), Some \<lparr>rows = [], sqlite_sequence = 0\<rparr>)"
  "initDatabase_p3 (Some t) = (Inr (), Some t)"
  by (simp_all add: initDatabase_p3_def create_table_if_not_exists_def)

lemma initDatabase_p2_twice: "initDatabase_p2 (initDatabase_p2 db) = initDatabase_p2 db"
  by (cases db) (simp_all add: initDatabase_p2_cases)

lemma initDatabase_p3_twice:
  "snd (initDatabase_p3 (snd (initDatabase_p3 db))) = snd (initDatabase_p3 db)"
  by (cases db) (simp_all add: initDatabase_p3_cases)

text \<open>
  C8. In both persistence modules, \<^verbatim>\<open>initDatabase\<close> called \<open>n + 1\<close> times leaves the
  database in the state that one call leaves it in; it never rejects; on a database that
  has the table it changes nothing; and it never changes the stored rows.
\<close>

theorem initDatabase_idempotent:
  "(initDatabase_p2 ^^ Suc n) db = initDatabase_p2 db
   \<and> ((\<lambda>d. snd (initDatabase_p3 d)) ^^ Suc n) db = snd (initDatabase_p3 db)
   \<and> fst (initDatabase_p3 db) = Inr ()
   \<and> initDatabase_p2 (Some t) = Some t
   \<and> initDatabase_p3 (Some t) = (Inr (), Some t)
   \<and> rows_of (initDatabase_p2 db) = rows_of db
   \<and> rows_of (snd (initDatabase_p3 db)) = rows_of db"
proof -
  have a: "(initDatabase_p2 ^^ Suc n) db = initDatabase_p2 db"
    by (rule funpow_idem) (rule initDatabase_p2_twice)
  have b: "((\<lambda>d. snd (initDatabase_p3 d)) ^^ Suc n) db = snd (initDatabase_p3 db)"
    by (rule funpow_idem) (rule initDatabase_p3_twice)
  have c: "fst (initDatabase_p3 db) = Inr ()"
    by (cases db) (simp_all add: initDatabase_p3_cases)
  have d: "rows_of (initDatabase_p2 db) = rows_of db"
    by (cases db) (simp_all add: initDatabase_p2_cases rows_of_def)
  have e: "rows_of (snd (initDatabase_p3 db)) = rows_of db"
    by (cases db) (simp_all add: initDatabase_p3_cases rows_of_def)
  from a b c d e show ?thesis
    by (simp only: initDatabase_p2_cases initDatabase_p3_cases simp_thms)
qed

section \<open>Listing\<close>


lemma mset_insert_desc: "mset (insert_desc r xs) = add_mset r (mset xs)"
  by (induction xs) simp_all

lemma mset_order_by_timestamp_desc: "mset (order_by_timestamp_desc rs) = mset rs"
  by (induction rs) (simp_all add: mset_insert_desc)

lemma set_insert_desc: "set (insert_desc r xs) = insert r (set xs)"
  by (induction xs) auto

lemma set_order_by_timestamp_desc: "set (order_by_timestamp_desc rs) = set rs"
  by (induction rs) (simp_all add: set_insert_desc)

lemma sorted_insert_desc:
  "sorted_wrt (\<lambda>a b. timestamp b \<le> timestamp a) xs \<Longrightarrow>
   sorted_wrt (\<lambda>a b. timestamp b \<le> timestamp a) (insert_desc r xs)"
proof (induction xs)
  case Nil
  then show ?case by simp
next
  case (Cons x xs)
  show ?case
  proof (cases "timestamp x \<le> timestamp r")
    case True
    with Cons.prems show ?thesis by (auto intro: order_trans)
  next
    case False
    then have "timestamp r \<le> timestamp x" by simp
    with False Cons show ?thesis by (auto simp: set_insert_desc)
  qed
qed

lemma sorted_order_by_timestamp_desc:
  "sorted_wrt (\<lambda>a b. timestamp b \<le> timestamp a) (order_by_timestamp_desc rs)"
  by (induction rs) (simp_all add: sorted_insert_desc)

lemma strict_insert_desc:
  "sorted_wrt (\<lambda>a b. timestamp b < timestamp a) xs \<Longrightarrow> timestamp r \<notin> timestamp ` set xs \<Longrightarrow>
   sorted_wrt (\<lambda>a b. timestamp b < timestamp a) (insert_desc r xs)"
proof (induction xs)
  case Nil
  then show ?case by simp
next
  case (Cons x xs)
  from Cons.prems have ne: "timestamp x \<noteq> timestamp r" by auto
  show ?case
  proof (cases "timestamp x \<le> timestamp r")
    case True
    with ne have "timestamp x < timestamp r" by simp
    with Cons.prems show ?thesis by (auto intro: less_trans)
  next
    case False
    then have "timestamp r < timestamp x" by simp
    with False Cons show ?thesis by (auto simp: set_insert_desc)
  qed
qed

lemma strict_order_by_timestamp_desc:
  "distinct (map timestamp rs) \<Longrightarrow>
   sorted_wrt (\<lambda>a b. timestamp b < timestamp a) (order_by_timestamp_desc rs)"
  by (induction rs) (simp_all add: strict_insert_desc set_order_by_timestamp_desc)

lemma getScans_p2_table: "getScans_p2 (Some t) = Inr (order_by_timestamp_desc (rows t))"
  by (simp add: getScans_p2_def select_order_by_timestamp_desc_def)

lemma getScans_p3_result:
  "getScans_p3 db = (Inr (order_by_timestamp_desc (rows_of db)), snd (initDatabase_p3 db))"
  by (cases db)
     (simp_all add: getScans_p3_def initDatabase_p3_def create_table_if_not_exists_def
        select_order_by_timestamp_desc_def rows_of_def)

text \<open>
  C4, as amended. On every database state that has the table, \<^verbatim>\<open>getScans\<close> resolves with
  all stored rows (the same multiset), ordered by timestamp descending; strictly descending
  when the timestamps are pairwise distinct; and with the empty list when there are no
  rows. The guarded module's \<^verbatim>\<open>getScans\<close> does so on every database state: it creates a
  missing table first.
\<close>

theorem getScans_ordered:
  "fst (getScans_p3 db) = Inr (order_by_timestamp_desc (rows_of db))
   \<and> getScans_p2 (Some t) = Inr (order_by_timestamp_desc (rows_of (Some t)))
   \<and> mset (order_by_timestamp_desc (rows_of db)) = mset (rows_of db)
   \<and> sorted_wrt (\<lambda>a b. timestamp b \<le> timestamp a) (order_by_timestamp_desc (rows_of db))
   \<and> (distinct (map timestamp (rows_of db)) \<longrightarrow>
        sorted_wrt (\<lambda>a b. timestamp b < timestamp a) (order_by_timestamp_desc (rows_of db)))
   \<and> (rows_of db = [] \<longrightarrow> fst (getScans_p3 db) = Inr [])
   \<and> (rows t = [] \<longrightarrow> getScans_p2 (Some t) = Inr [])"
  by (simp add: getScans_p3_result getScans_p2_table mset_order_by_timestamp_desc
        sorted_order_by_timestamp_desc strict_order_by_timestamp_desc rows_of_def)

theorem getScans_ordered_witness:
  "getScans_p2 (Some three_rows) = Inr [row_at 2 30, row_at 3 20, row_at 1 10]
   \<and> sorted_wrt (\<lambda>a b. timestamp b < timestamp a) [row_at 2 30, row_at 3 20, row_at 1 10]
   \<and> fst (getScans_p3 None) = Inr []"
  using getScans_ordered [of "Some three_rows" three_rows] getScans_ordered [of None]
  by (simp add: rows_of_def three_rows_def row_at_def)

text \<open>
  C4, as stated, fails: on a database file that does not have the table yet, where no rows
  exist, the simpler module's \<^verbatim>\<open>getScans\<close> rejects with the error of the statement.
\<close>

theorem getScans_p2_without_table:
  "reachable None \<and> rows_of None = [] \<and> getScans_p2 None = Inl NoSuchTable"
  by (simp add: fresh rows_of_def getScans_p2_def select_order_by_timestamp_desc_def)

section \<open>Creating\<close>

lemma largest_rowid_ge: "r \<in> set rs \<Longrightarrow> scan_id r \<le> largest_rowid rs"
  by (induction rs rule: largest_rowid.induct) auto

lemma insert_into_scans_result:
  "insert_into_scans now db v = Inr (i, db') \<Longrightarrow>
   \<exists>t. db = Some t
     \<and> i = max (largest_rowid (rows t)) (sqlite_sequence t) + 1
     \<and> db' = Some \<lparr>rows = rows t @
                    [\<lparr>qr_data = qr_data v, latitude = latitude v, longitude = longitude v,
                      altitude = altitude v, accuracy = accuracy v, timestamp = timestamp v,
                      scan_id = i, created_at = now\<rparr>],
                  sqlite_sequence = i\<rparr>
     \<and> qr_data v \<noteq> None \<and> timestamp v \<noteq> None \<and> i \<le> MAX_ROWID"
  by (cases db) (auto simp add: insert_into_scans_def Let_def split: if_splits)

lemma insert_into_scans_fresh:
  "insert_into_scans now db v = Inr (i, db') \<Longrightarrow> i \<notin> scan_id ` set (rows_of db)"
proof
  assume a: "insert_into_scans now db v = Inr (i, db')" and b: "i \<in> scan_id ` set (rows_of db)"
  from a obtain t where t: "db = Some t" "i = max (largest_rowid (rows t)) (sqlite_sequence t) + 1"
    by (blast dest: insert_into_scans_result)
  from b t obtain r where "r \<in> set (rows t)" "scan_id r = i" by (auto simp add: rows_of_def)
  then have "i \<le> largest_rowid (rows t)" using largest_rowid_ge by blast
  with t show False by simp
qed

lemma nullish_null_id: "nullish_null x = x"
  by (cases x) (simp_all add: nullish_null_def)

lemma addScan_p3_roundtrip:
  assumes "qr_data s \<noteq> None" and "timestamp s \<noteq> None"
    and "L = max (largest_rowid (rows_of db)) (case db of None \<Rightarrow> 0 | Some t \<Rightarrow> sqlite_sequence t)"
    and "L < MAX_ROWID" and "L \<noteq> - 1"
  shows "\<exists>db'. addScan_p3 now db s = (Inr (L + 1), db')
     \<and> fst (getScans_p3 db') =
         Inr (order_by_timestamp_desc
               (rows_of db @
                [\<lparr>qr_data = qr_data s, latitude = latitude s, longitude = longitude s,
                  altitude = altitude s, accuracy = accuracy s, timestamp = timestamp s,
                  scan_id = L + 1, created_at = now\<rparr>]))
     \<and> \<lparr>qr_data = qr_data s, latitude = latitude s, longitude = longitude s,
         altitude = altitude s, accuracy = accuracy s, timestamp = timestamp s,
         scan_id = L + 1, created_at = now\<rparr>
       \<in> set (order_by_timestamp_desc
               (rows_of db @
                [\<lparr>qr_data = qr_data s, latitude = latitude s, longitude = longitude s,
                  altitude = altitude s, accuracy = accuracy s, timestamp = timestamp s,
                  scan_id = L + 1, created_at = now\<rparr>]))"
proof -
  let ?t = "case db of None \<Rightarrow> \<lparr>rows = [], sqlite_sequence = 0\<rparr> | Some t \<Rightarrow> t"
  let ?row = "\<lparr>qr_data = qr_data s, latitude = latitude s, longitude = longitude s,
               altitude = altitude s, accuracy = accuracy s, timestamp = timestamp s,
               scan_id = L + 1, created_at = now\<rparr>"
  have i: "initDatabase_p3 db = (Inr (), Some ?t)"
    by (cases db) (simp_all add: initDatabase_p3_def create_table_if_not_exists_def)
  have l: "max (largest_rowid (rows_of db)) (sqlite_sequence ?t) = L"
    using assms(3) by (cases db) (simp_all add: rows_of_def)
  have r: "rows ?t = rows_of db"
    by (cases db) (simp_all add: rows_of_def)
  from assms(4) have f: "\<not> MAX_ROWID \<le> L" by simp
  have ins: "insert_into_scans now (Some ?t)
         \<lparr>qr_data = qr_data s, latitude = latitude s, longitude = longitude s,
          altitude = altitude s, accuracy = accuracy s, timestamp = timestamp s\<rparr>
       = Inr (L + 1, Some \<lparr>rows = rows_of db @ [?row], sqlite_sequence = L + 1\<rparr>)"
    using assms(1,2) f by (simp add: insert_into_scans_def Let_def r l)
  from assms(5) have "L + 1 \<noteq> 0" by simp
  then have a: "addScan_p3 now db s =
      (Inr (L + 1), Some \<lparr>rows = rows_of db @ [?row], sqlite_sequence = L + 1\<rparr>)"
    by (simp add: addScan_p3_def i nullish_null_id ins)
  have g: "fst (getScans_p3 (Some \<lparr>rows = rows_of db @ [?row], sqlite_sequence = L + 1\<rparr>)) =
      Inr (order_by_timestamp_desc (rows_of db @ [?row]))"
    by (simp add: getScans_p3_result rows_of_def)
  have m: "?row \<in> set (order_by_timestamp_desc (rows_of db @ [?row]))"
    by (simp add: set_order_by_timestamp_desc)
  from a g m show ?thesis by blast
qed

text \<open>
  C2. The simpler module's \<^verbatim>\<open>addScan\<close>, given a scan with latitude 0, stores and returns a
  row whose latitude is \<^verbatim>\<open>NULL\<close>, and \<^verbatim>\<open>getScans\<close> then lists that row: the created record
  does not have the input's latitude. The guarded module's \<^verbatim>\<open>addScan\<close> keeps every field,
  as \<open>addScan_p3_roundtrip\<close> says.
\<close>

theorem addScan_p2_drops_zero_latitude:
  "addScan_p2 ''2023-11-14 22:13:20'' empty_table equator_scan =
     (Inr (Some (example_row\<lparr>latitude := None\<rparr>)),
      Some \<lparr>rows = [example_row\<lparr>latitude := None\<rparr>], sqlite_sequence = 1\<rparr>)
   \<and> getScans_p2 (snd (addScan_p2 ''2023-11-14 22:13:20'' empty_table equator_scan)) =
       Inr [example_row\<lparr>latitude := None\<rparr>]
   \<and> latitude equator_scan = Some 0"
  by (simp add: addScan_p2_def insert_into_scans_def select_where_id_def or_null_num_def
        empty_table_def equator_scan_def example_row_def MAX_ROWID_def getScans_p2_def
        select_order_by_timestamp_desc_def)

section \<open>Deleting\<close>

lemma deleteScan_p3_result:
  "deleteScan_p3 db i =
     (Inr (i \<in> scan_id ` set (rows_of db)),
      Some \<lparr>rows = filter (\<lambda>r. scan_id r \<noteq> i) (rows_of db),
            sqlite_sequence = (case db of None \<Rightarrow> 0 | Some t \<Rightarrow> sqlite_sequence t)\<rparr>)"
  by (cases db)
     (auto simp add: deleteScan_p3_def initDatabase_p3_def create_table_if_not_exists_def
        delete_where_id_def rows_of_def filter_empty_conv)

text \<open>
  C3. On an id that no row has, the guarded module's \<^verbatim>\<open>deleteScan\<close> resolves with
  \<^verbatim>\<open>false\<close>, as \<open>deleteScan_p3_result\<close> says of every id; the simpler module's resolves
  with \<^verbatim>\<open>true\<close> although nothing was removed.
\<close>

theorem deleteScan_p2_true_without_row:
  "deleteScan_p2 example_table 999999 = (Inr True, example_table)
   \<and> deleteScan_p3 example_table 999999 = (Inr False, example_table)"
  by (simp add: deleteScan_p2_def deleteScan_p3_def initDatabase_p3_def
        create_table_if_not_exists_def delete_where_id_def example_table_def example_row_def)

section \<open>Rejected and unknown ids\<close>

lemmas parseInt_defs =
  parseInt_def StrWhiteSpaceChar_def radix_digit_def digit_value_def digits_to_nat_def Let_def
  isNaN_def to_number_def round_to_double_def

lemma to_number_not_NaN: "to_number i \<noteq> NaN"
  by (simp add: to_number_def split: option.splits)

lemma digit_char:
  assumes "48 \<le> (of_char c :: nat) \<and> (of_char c :: nat) \<le> 57"
  shows "\<not> StrWhiteSpaceChar c" "radix_digit 10 c" "c \<noteq> CHR ''-''" "c \<noteq> CHR ''+''"
    "c \<noteq> CHR ''x''" "c \<noteq> CHR ''X''"
  using assms
  by (auto simp add: StrWhiteSpaceChar_def radix_digit_def digit_value_def Let_def)

lemma parseInt_numeric_string: "numeric_string s \<Longrightarrow> parseInt s \<noteq> NaN"
proof -
  assume n: "numeric_string s"
  then obtain c cs where s: "s = c # cs"
    by (cases s) (simp_all add: numeric_string_def)
  from n s have c: "48 \<le> (of_char c :: nat) \<and> (of_char c :: nat) \<le> 57"
    by (simp add: numeric_string_def)
  have hex: "take 2 s \<noteq> ''0x'' \<and> take 2 s \<noteq> ''0X''"
  proof (cases cs)
    case Nil
    with s show ?thesis by simp
  next
    case (Cons d ds)
    with n s have "48 \<le> (of_char d :: nat) \<and> (of_char d :: nat) \<le> 57"
      by (simp add: numeric_string_def)
    then have "d \<noteq> CHR ''x''" "d \<noteq> CHR ''X''" by (rule digit_char)+
    with s Cons show ?thesis by simp
  qed
  from s digit_char [OF c] have d: "dropWhile StrWhiteSpaceChar s = s" by simp
  from s digit_char [OF c] have t: "take 1 s \<noteq> ''-''" "take 1 s \<noteq> ''+''" by simp_all
  from s digit_char [OF c] have z: "takeWhile (radix_digit 10) s \<noteq> []" by simp
  show ?thesis
    unfolding parseInt_def Let_def d using t hex z by (simp add: to_number_not_NaN)
qed

text \<open>
  C5, as amended. For every id parameter in which \<^verbatim>\<open>parseInt\<close> finds no number (after
  leading white space and a sign there is no digit), \<^verbatim>\<open>GET\<close>, \<^verbatim>\<open>DELETE\<close> and \<^verbatim>\<open>PUT\<close> answer
  400 with \<^verbatim>\<open>{success: false, error: "Invalid scan ID"}\<close>, prepare no statement and leave
  the database as it was.
\<close>

theorem invalid_id_rejected:
  assumes "parseInt id_param = NaN"
  shows "GET db id_param =
           (\<lparr>status = 400,
             body = \<lparr>success = False, error = Some ''Invalid scan ID'', message = None,
                     scan = None, deletedId = None, changes = None\<rparr>\<rparr>, db, [])
         \<and> DELETE db id_param =
           (\<lparr>status = 400,
             body = \<lparr>success = False, error = Some ''Invalid scan ID'', message = None,
                     scan = None, deletedId = None, changes = None\<rparr>\<rparr>, db, [])
         \<and> PUT db id_param request =
           (\<lparr>status = 400,
             body = \<lparr>success = False, error = Some ''Invalid scan ID'', message = None,
                     scan = None, deletedId = None, changes = None\<rparr>\<rparr>, db, [])"
  using assms
  by (simp add: GET_def GET_try_def DELETE_def DELETE_try_def PUT_def PUT_try_def json_def
        failure_def isNaN_def)

theorem invalid_id_rejected_witness:
  "parseInt ''abc'' = NaN
   \<and> status (fst (GET example_table ''abc'')) = 400
   \<and> error (body (fst (DELETE example_table ''abc''))) = Some ''Invalid scan ID''
   \<and> snd (PUT example_table ''abc'' (JsonObject empty_body)) = (example_table, [])"
proof -
  have h: "parseInt ''abc'' = NaN" by (simp add: parseInt_defs)
  show ?thesis
    using h invalid_id_rejected [OF h, of example_table "JsonObject empty_body"] by simp
qed

text \<open>
  C5, as stated, fails: \<^verbatim>\<open>1abc\<close> is not a numeric string, yet \<^verbatim>\<open>parseInt\<close> reads it as 1,
  and the handlers go to storage: \<^verbatim>\<open>GET\<close> returns scan 1 and \<^verbatim>\<open>DELETE\<close> deletes it.
\<close>

theorem trailing_garbage_id_accepted:
  "\<not> numeric_string ''1abc''
   \<and> GET example_table ''1abc'' =
       (\<lparr>status = 200,
         body = \<lparr>success = True, error = None, message = None, scan = Some example_row,
                 deletedId = None, changes = None\<rparr>\<rparr>, example_table, [Select (Number 1)])
   \<and> DELETE example_table ''1abc'' =
       (\<lparr>status = 200,
         body = \<lparr>success = True, error = None, message = Some ''Scan deleted successfully'',
                 scan = None, deletedId = Some (Number 1), changes = Some 1\<rparr>\<rparr>,
        Some \<lparr>rows = [], sqlite_sequence = 1\<rparr>, [Select (Number 1), Delete (Number 1)])
   \<and> status (fst (PUT example_table ''1abc'' (JsonObject empty_body))) = 200"
  by (simp add: numeric_string_def GET_def GET_try_def DELETE_def DELETE_try_def PUT_def
        PUT_try_def parseInt_defs select_where_id_def delete_where_id_def
        update_coalesce_where_id_def set_coalesce_def COALESCE_def or_null_num_def
        or_null_str_def json_def example_table_def example_row_def empty_body_def)

text \<open>
  An id beyond \<open>2 ^ 53\<close> is looked up as the double that \<^verbatim>\<open>parseInt\<close> rounds it to:
  \<^verbatim>\<open>9007199254740993\<close> deletes, and updates, the row with the id 9007199254740992.
\<close>

lemma parseInt_rounds_to_double:
  "parseInt ''9007199254740993'' = Number 9007199254740992
   \<and> DELETE large_id_table ''9007199254740993'' =
       (\<lparr>status = 200,
         body = \<lparr>success = True, error = None, message = Some ''Scan deleted successfully'',
                 scan = None, deletedId = Some (Number 9007199254740992), changes = Some 1\<rparr>\<rparr>,
        Some \<lparr>rows = [], sqlite_sequence = 9007199254740992\<rparr>,
        [Select (Number 9007199254740992), Delete (Number 9007199254740992)])
   \<and> rows_of (fst (snd (PUT large_id_table ''9007199254740993''
                           (JsonObject (empty_body\<lparr>qr_data := Some ''new''\<rparr>))))) =
       [(row_at 9007199254740992 10)\<lparr>qr_data := Some ''new''\<rparr>]"
proof -
  have b: "bitlength 9007199254740993 = 54"
    by (simp add: bitlength.simps)
  have p: "parseInt ''9007199254740993'' = Number 9007199254740992"
    by (simp add: parseInt_defs b del: bitlength.simps)
  show ?thesis
    by (simp add: p DELETE_def DELETE_try_def PUT_def PUT_try_def isNaN_def Let_def
          select_where_id_def delete_where_id_def update_coalesce_where_id_def
          set_coalesce_def COALESCE_def or_null_num_def or_null_str_def json_def
          large_id_table_def row_at_def empty_body_def rows_of_def)
qed

text \<open>
  C6, as amended. For every id parameter that \<^verbatim>\<open>parseInt\<close> reads as a number (the id that
  the handlers look up, a double) whose value no row of the existing table has as its id,
  \<^verbatim>\<open>GET\<close> and \<^verbatim>\<open>DELETE\<close> answer 404 with \<^verbatim>\<open>{success: false, error: "Scan not found"}\<close>, and
  so does \<^verbatim>\<open>PUT\<close> when its request body parses as JSON; the database is left as it was.
\<close>

theorem missing_id_not_found:
  assumes "parseInt id_param \<noteq> NaN" and "db = Some t"
    and "parseInt id_param \<notin> Number ` scan_id ` set (rows t)"
    and "\<forall>m. request \<noteq> Malformed m"
  shows "GET db id_param =
           (\<lparr>status = 404,
             body = \<lparr>success = False, error = Some ''Scan not found'', message = None,
                     scan = None, deletedId = None, changes = None\<rparr>\<rparr>, db,
            [Select (parseInt id_param)])
         \<and> DELETE db id_param =
           (\<lparr>status = 404,
             body = \<lparr>success = False, error = Some ''Scan not found'', message = None,
                     scan = None, deletedId = None, changes = None\<rparr>\<rparr>, db,
            [Select (parseInt id_param)])
         \<and> PUT db id_param request =
           (\<lparr>status = 404,
             body = \<lparr>success = False, error = Some ''Scan not found'', message = None,
                     scan = None, deletedId = None, changes = None\<rparr>\<rparr>, db,
            [Select (parseInt id_param)])"
proof -
  have "Number (scan_id r) \<noteq> parseInt id_param" if "r \<in> set (rows t)" for r
    using assms(3) that by (metis imageI)
  then have e: "filter (\<lambda>r. Number (scan_id r) = parseInt id_param) (rows t) = []"
    by (simp add: filter_empty_conv)
  from assms(1,2,4) e show ?thesis
    by (cases request)
       (simp_all add: GET_def GET_try_def DELETE_def DELETE_try_def PUT_def PUT_try_def
          json_def failure_def select_where_id_def isNaN_def Let_def)
qed

theorem missing_id_not_found_witness:
  "parseInt ''999999'' = Number 999999
   \<and> GET example_table ''999999'' =
           (\<lparr>status = 404,
             body = \<lparr>success = False, error = Some ''Scan not found'', message = None,
                     scan = None, deletedId = None, changes = None\<rparr>\<rparr>, example_table,
            [Select (Number 999999)])
   \<and> status (fst (DELETE example_table ''999999'')) = 404
   \<and> status (fst (PUT example_table ''999999'' (JsonObject empty_body))) = 404"
proof -
  have p: "parseInt ''999999'' = Number 999999" by (simp add: parseInt_defs)
  have a: "parseInt ''999999'' \<noteq> NaN" by (simp add: p)
  have b: "example_table = Some \<lparr>rows = [example_row], sqlite_sequence = 1\<rparr>"
    by (simp add: example_table_def)
  have c: "parseInt ''999999'' \<notin>
             Number ` scan_id ` set (rows \<lparr>rows = [example_row], sqlite_sequence = 1\<rparr>)"
    by (simp add: p example_row_def)
  have d: "\<forall>m. JsonObject empty_body \<noteq> Malformed m" by simp
  show ?thesis
    using p missing_id_not_found [OF a b c d] by simp
qed

text \<open>
  C6, as stated, fails: \<^verbatim>\<open>PUT\<close> reads the request body before it looks the id up, so a
  body that is not JSON gives 500 for an id that no row has.
\<close>

theorem PUT_malformed_body_missing_id:
  "PUT example_table ''999999'' (Malformed ''Unexpected end of JSON input'' :: scan_fields json_body) =
     (\<lparr>status = 500,
       body = \<lparr>success = False, error = Some ''Failed to update scan'',
               message = Some ''Unexpected end of JSON input'', scan = None,
               deletedId = None, changes = None\<rparr>\<rparr>, example_table, [])
   \<and> parseInt ''999999'' = Number 999999
   \<and> select_where_id example_table (Number 999999) = Inr []"
  by (simp add: PUT_def PUT_try_def parseInt_defs json_def failure_message_def
        select_where_id_def example_table_def example_row_def)

section \<open>Updating\<close>

lemma update_coalesce_where_id_result:
  "update_coalesce_where_id db p1 p2 p3 p4 p5 i = Inr (k, db') \<Longrightarrow>
   \<exists>t. db = Some t
     \<and> db' = Some (t\<lparr>rows := map (\<lambda>r. if Number (scan_id r) = i
                                     then set_coalesce p1 p2 p3 p4 p5 r else r) (rows t)\<rparr>)
     \<and> \<not> list_ex (\<lambda>r. Number (scan_id r) = i \<and> qr_data r = None)
           (map (\<lambda>r. if Number (scan_id r) = i then set_coalesce p1 p2 p3 p4 p5 r else r) (rows t))"
  by (cases db) (auto simp add: update_coalesce_where_id_def Let_def split: if_splits)

lemma PUT_database:
  "fst (snd (PUT db id_param request)) = db
   \<or> (\<exists>t p1 p2 p3 p4 p5. db = Some t
        \<and> fst (snd (PUT db id_param request)) =
            Some (t\<lparr>rows := map (\<lambda>r. if Number (scan_id r) = parseInt id_param
                                    then set_coalesce p1 p2 p3 p4 p5 r else r) (rows t)\<rparr>)
        \<and> \<not> list_ex (\<lambda>r. Number (scan_id r) = parseInt id_param \<and> qr_data r = None)
             (map (\<lambda>r. if Number (scan_id r) = parseInt id_param
                       then set_coalesce p1 p2 p3 p4 p5 r else r) (rows t)))"
  unfolding PUT_def PUT_try_def Let_def
  by (auto split: json_body.splits sum.splits list.splits prod.splits
           dest!: update_coalesce_where_id_result)

lemma set_coalesce_frame:
  "scan_id (set_coalesce p1 p2 p3 p4 p5 r) = scan_id r"
  "timestamp (set_coalesce p1 p2 p3 p4 p5 r) = timestamp r"
  "created_at (set_coalesce p1 p2 p3 p4 p5 r) = created_at r"
  by (simp_all add: set_coalesce_def)

lemma map_update_frame:
  "map scan_id (map (\<lambda>r. if Number (scan_id r) = n then set_coalesce p1 p2 p3 p4 p5 r else r) rs)
     = map scan_id rs"
  "map timestamp (map (\<lambda>r. if Number (scan_id r) = n then set_coalesce p1 p2 p3 p4 p5 r else r) rs)
     = map timestamp rs"
  "map created_at (map (\<lambda>r. if Number (scan_id r) = n then set_coalesce p1 p2 p3 p4 p5 r else r) rs)
     = map created_at rs"
  "filter (\<lambda>r. Number (scan_id r) \<noteq> n)
     (map (\<lambda>r. if Number (scan_id r) = n then set_coalesce p1 p2 p3 p4 p5 r else r) rs)
     = filter (\<lambda>r. Number (scan_id r) \<noteq> n) rs"
  by (induction rs) (simp_all add: set_coalesce_frame)

text \<open>
  What \<^verbatim>\<open>PUT\<close> stores for an id that a row has: each of the five columns is coalesced on
  its own, and a provided value replaces the stored one unless it is falsy.
\<close>

lemma COALESCE_or_null:
  "COALESCE (or_null_num None) old = old"
  "COALESCE (or_null_num (Some 0)) old = old"
  "x \<noteq> 0 \<Longrightarrow> COALESCE (or_null_num (Some x)) old = Some x"
  "COALESCE (or_null_str None) old' = old'"
  "COALESCE (or_null_str (Some [])) old' = old'"
  "s \<noteq> [] \<Longrightarrow> COALESCE (or_null_str (Some s)) old' = Some s"
  by (simp_all add: COALESCE_def or_null_num_def or_null_str_def)

lemma select_where_id_Some:
  "select_where_id (Some t) i = Inr (filter (\<lambda>r. Number (scan_id r) = i) (rows t))"
  by (simp add: select_where_id_def)

lemma PUT_existing_row:
  assumes "parseInt id_param = Number n" and "db = Some t" and "n \<in> scan_id ` set (rows t)"
    and "list_all (\<lambda>r. qr_data r \<noteq> None) (rows t)"
  shows "fst (snd (PUT db id_param (JsonObject b))) =
     Some (t\<lparr>rows :=
       map (\<lambda>r. if scan_id r = n
                then r\<lparr>qr_data := COALESCE (or_null_str (qr_data b)) (qr_data r),
                       latitude := COALESCE (or_null_num (latitude b)) (latitude r),
                       longitude := COALESCE (or_null_num (longitude b)) (longitude r),
                       altitude := COALESCE (or_null_num (altitude b)) (altitude r),
                       accuracy := COALESCE (or_null_num (accuracy b)) (accuracy r)\<rparr>
                else r) (rows t)\<rparr>)"
proof -
  from assms(3) obtain x xs where f: "filter (\<lambda>r. scan_id r = n) (rows t) = x # xs"
    by (cases "filter (\<lambda>r. scan_id r = n) (rows t)") (auto simp add: filter_empty_conv)
  have q: "\<not> list_ex (\<lambda>r. scan_id r = n \<and> qr_data r = None)
        (map (\<lambda>r. if scan_id r = n
                then set_coalesce (or_null_str (qr_data b)) (or_null_num (latitude b))
                       (or_null_num (longitude b)) (or_null_num (altitude b))
                       (or_null_num (accuracy b)) r
                else r) (rows t))"
  proof -
    have "qr_data (set_coalesce p1 p2 p3 p4 p5 r) \<noteq> None" if "qr_data r \<noteq> None"
      for p1 p2 p3 p4 p5 r
      using that by (cases p1) (simp_all add: set_coalesce_def COALESCE_def)
    with assms(4) show ?thesis
      by (auto simp add: list_ex_iff list_all_iff)
  qed
  have u: "update_coalesce_where_id db (or_null_str (qr_data b)) (or_null_num (latitude b))
              (or_null_num (longitude b)) (or_null_num (altitude b)) (or_null_num (accuracy b))
              (Number n) =
            Inr (length (x # xs),
                 Some (t\<lparr>rows := map (\<lambda>r. if scan_id r = n
                        then set_coalesce (or_null_str (qr_data b)) (or_null_num (latitude b))
                               (or_null_num (longitude b)) (or_null_num (altitude b))
                               (or_null_num (accuracy b)) r
                        else r) (rows t)\<rparr>))"
    using assms(2) q f by (simp add: update_coalesce_where_id_def Let_def)
  have s: "select_where_id db (Number n) = Inr (x # xs)"
    using assms(2) f by (simp add: select_where_id_def)
  have "fst (snd (PUT db id_param (JsonObject b))) =
      Some (t\<lparr>rows := map (\<lambda>r. if scan_id r = n
                        then set_coalesce (or_null_str (qr_data b)) (or_null_num (latitude b))
                               (or_null_num (longitude b)) (or_null_num (altitude b))
                               (or_null_num (accuracy b)) r
                        else r) (rows t)\<rparr>)"
    using assms(1) by (simp add: PUT_def PUT_try_def isNaN_def Let_def s u select_where_id_Some)
  then show ?thesis by (simp add: set_coalesce_def)
qed

text \<open>
  C1. A \<^verbatim>\<open>PUT\<close> whose body provides latitude 0 and the empty string as \<^verbatim>\<open>qr_data\<close> answers
  200 and leaves the row as it was: neither provided value replaces the stored one
  (\<open>COALESCE_or_null\<close> has the general fact).
\<close>

theorem PUT_ignores_zero_and_empty:
  "PUT example_table ''1'' (JsonObject (empty_body\<lparr>qr_data := Some '''', latitude := Some 0\<rparr>)) =
     (\<lparr>status = 200,
       body = \<lparr>success = True, error = None, message = Some ''Scan updated successfully'',
               scan = Some example_row, deletedId = None, changes = Some 1\<rparr>\<rparr>,
      example_table, [Select (Number 1), Update (Number 1), Select (Number 1)])
   \<and> latitude example_row = Some 40.4168
   \<and> qr_data example_row = Some ''https://example.com''"
  by (simp add: PUT_def PUT_try_def parseInt_defs select_where_id_def
        update_coalesce_where_id_def set_coalesce_def COALESCE_def or_null_num_def
        or_null_str_def json_def example_table_def example_row_def empty_body_def)



section \<open>The invariants of the stored records\<close>

lemma insert_into_scans_appended:
  "insert_into_scans now db v = Inr (i, db') \<Longrightarrow> appended db db'"
proof -
  assume a: "insert_into_scans now db v = Inr (i, db')"
  from insert_into_scans_fresh [OF a] insert_into_scans_result [OF a]
  show ?thesis
    unfolding appended_def by (auto simp add: rows_of_def)
qed

lemma initDatabase_p3_rows: "rows_of (snd (initDatabase_p3 db)) = rows_of db"
  by (cases db) (simp_all add: initDatabase_p3_def create_table_if_not_exists_def rows_of_def)

lemma initDatabase_p2_rows: "rows_of (initDatabase_p2 db) = rows_of db"
  by (cases db) (simp_all add: initDatabase_p2_def create_table_if_not_exists_def rows_of_def)

lemma addScan_p2_rows:
  "rows_of (snd (addScan_p2 now db s)) = rows_of db \<or> appended db (snd (addScan_p2 now db s))"
  unfolding addScan_p2_def
  by (auto split: sum.splits prod.splits dest: insert_into_scans_appended)

lemma initDatabase_p3_obtain:
  obtains db1 where "initDatabase_p3 db = (Inr (), db1)" and "rows_of db1 = rows_of db"
  by (cases db) (simp_all add: initDatabase_p3_def create_table_if_not_exists_def rows_of_def)

lemma addScan_p3_rows:
  "rows_of (snd (addScan_p3 now db s)) = rows_of db \<or> appended db (snd (addScan_p3 now db s))"
proof -
  obtain db1 where i: "initDatabase_p3 db = (Inr (), db1)" and r: "rows_of db1 = rows_of db"
    by (rule initDatabase_p3_obtain)
  show ?thesis
  proof (cases "insert_into_scans now db1
                  \<lparr>qr_data = qr_data s, latitude = nullish_null (latitude s),
                   longitude = nullish_null (longitude s), altitude = nullish_null (altitude s),
                   accuracy = nullish_null (accuracy s), timestamp = timestamp s\<rparr>")
    case (Inl e)
    then have "snd (addScan_p3 now db s) = db1"
      by (simp add: addScan_p3_def i)
    with r show ?thesis by simp
  next
    case (Inr p)
    obtain k db2 where p: "p = (k, db2)" by (cases p)
    from Inr p have "appended db1 db2"
      by (blast intro: insert_into_scans_appended)
    then have "appended db db2"
      by (simp add: appended_def r)
    moreover from Inr p have "snd (addScan_p3 now db s) = db2"
      by (simp add: addScan_p3_def i)
    ultimately show ?thesis by simp
  qed
qed

lemma delete_where_id_rows:
  "delete_where_id db i = Inr (k, db') \<Longrightarrow>
   rows_of db' = filter (\<lambda>r. Number (scan_id r) \<noteq> i) (rows_of db)"
  by (cases db) (auto simp add: delete_where_id_def rows_of_def)

lemma deleteScan_p2_rows:
  "rows_of (snd (deleteScan_p2 db i)) = rows_of db
   \<or> rows_of (snd (deleteScan_p2 db i)) = filter (\<lambda>r. scan_id r \<noteq> i) (rows_of db)"
  unfolding deleteScan_p2_def
  by (auto split: sum.splits prod.splits dest: delete_where_id_rows)

lemma deleteScan_p3_rows:
  "rows_of (snd (deleteScan_p3 db i)) = filter (\<lambda>r. scan_id r \<noteq> i) (rows_of db)"
  by (cases db)
     (simp_all add: deleteScan_p3_def initDatabase_p3_def create_table_if_not_exists_def
        delete_where_id_def rows_of_def)

lemma getScans_p3_rows: "rows_of (snd (getScans_p3 db)) = rows_of db"
  by (cases db)
     (simp_all add: getScans_p3_def initDatabase_p3_def create_table_if_not_exists_def
        select_order_by_timestamp_desc_def rows_of_def)

lemma GET_database: "fst (snd (GET db id_param)) = db"
  unfolding GET_def GET_try_def Let_def
  by (auto split: sum.splits list.splits)

lemma DELETE_rows:
  "rows_of (fst (snd (DELETE db id_param))) = rows_of db
   \<or> removed db (fst (snd (DELETE db id_param)))"
  unfolding DELETE_def DELETE_try_def Let_def removed_def
  by (auto split: sum.splits list.splits prod.splits dest: delete_where_id_rows)

lemma PUT_rows:
  "rows_of (fst (snd (PUT db id_param request))) = rows_of db
   \<or> updated db (fst (snd (PUT db id_param request)))"
proof (cases "fst (snd (PUT db id_param request)) = db")
  case True
  then show ?thesis by simp
next
  case False
  with PUT_database [of db id_param request]
  obtain t p1 p2 p3 p4 p5 where "db = Some t"
    and "fst (snd (PUT db id_param request)) =
           Some (t\<lparr>rows := map (\<lambda>r. if Number (scan_id r) = parseInt id_param
                                   then set_coalesce p1 p2 p3 p4 p5 r else r) (rows t)\<rparr>)"
    and "\<not> list_ex (\<lambda>r. Number (scan_id r) = parseInt id_param \<and> qr_data r = None)
             (map (\<lambda>r. if Number (scan_id r) = parseInt id_param
                       then set_coalesce p1 p2 p3 p4 p5 r else r) (rows t))"
    by blast
  then have "updated db (fst (snd (PUT db id_param request)))"
    unfolding updated_def rows_of_def
    by (intro exI [of _ "parseInt id_param"] exI [of _ p1] exI [of _ p2] exI [of _ p3]
          exI [of _ p4] exI [of _ p5])
       simp
  then show ?thesis by simp
qed

lemma step_rows:
  "step db db' \<Longrightarrow>
   rows_of db' = rows_of db \<or> removed db db' \<or> appended db db' \<or> updated db db'"
proof (induction rule: step.induct)
  case (init_p2 db)
  then show ?case by (simp add: initDatabase_p2_rows)
next
  case (init_p3 db)
  then show ?case by (simp add: initDatabase_p3_rows)
next
  case (list_p3 db)
  then show ?case by (simp add: getScans_p3_rows)
next
  case (create_p2 db now scanData)
  then show ?case using addScan_p2_rows [of now db scanData] by blast
next
  case (create_p3 db now scanData)
  then show ?case using addScan_p3_rows [of now db scanData] by blast
next
  case (delete_p2 db i)
  have "filter (\<lambda>r. scan_id r \<noteq> i) (rows_of db) =
        filter (\<lambda>r. Number (scan_id r) \<noteq> Number i) (rows_of db)" by simp
  then show ?case using deleteScan_p2_rows [of db i] unfolding removed_def by metis
next
  case (delete_p3 db i)
  have "filter (\<lambda>r. scan_id r \<noteq> i) (rows_of db) =
        filter (\<lambda>r. Number (scan_id r) \<noteq> Number i) (rows_of db)" by simp
  then show ?case using deleteScan_p3_rows [of db i] unfolding removed_def by metis
next
  case (route_get db id_param)
  then show ?case by (simp add: GET_database)
next
  case (route_delete db id_param)
  then show ?case using DELETE_rows [of db id_param] by blast
next
  case (route_put db id_param request)
  then show ?case using PUT_rows [of db id_param request] by blast
qed

lemma removed_inv:
  "removed db db' \<Longrightarrow> unique_ids db \<Longrightarrow> required_present db \<Longrightarrow>
   unique_ids db' \<and> required_present db'"
  by (auto simp add: removed_def unique_ids_def required_present_def distinct_map_filter
        list_all_iff)

lemma appended_inv:
  "appended db db' \<Longrightarrow> unique_ids db \<Longrightarrow> required_present db \<Longrightarrow>
   unique_ids db' \<and> required_present db'"
  by (auto simp add: appended_def unique_ids_def required_present_def list_all_iff)

lemma updated_inv:
  assumes "updated db db'" "unique_ids db" "required_present db"
  shows "unique_ids db' \<and> required_present db'"
proof -
  from assms(1) obtain n p1 p2 p3 p4 p5 where
    r: "rows_of db' =
          map (\<lambda>r. if Number (scan_id r) = n then set_coalesce p1 p2 p3 p4 p5 r else r) (rows_of db)"
    and q: "\<not> list_ex (\<lambda>r. Number (scan_id r) = n \<and> qr_data r = None) (rows_of db')"
    unfolding updated_def by blast
  have "map scan_id (rows_of db') = map scan_id (rows_of db)"
    by (simp only: r map_update_frame)
  with assms(2) have u: "unique_ids db'" by (simp add: unique_ids_def)
  have "qr_data x \<noteq> None \<and> timestamp x \<noteq> None" if x: "x \<in> set (rows_of db')" for x
  proof (cases "Number (scan_id x) = n")
    case True
    with q x have a: "qr_data x \<noteq> None" by (auto simp add: list_ex_iff)
    from x r obtain y where y: "y \<in> set (rows_of db)" and "timestamp x = timestamp y"
      by (auto simp add: set_coalesce_frame split: if_splits)
    with assms(3) a show ?thesis by (auto simp add: required_present_def list_all_iff)
  next
    case False
    with x r have "x \<in> set (rows_of db)"
      by (auto simp add: set_coalesce_frame split: if_splits)
    with assms(3) show ?thesis by (auto simp add: required_present_def list_all_iff)
  qed
  then have "required_present db'" by (simp add: required_present_def list_all_iff)
  with u show ?thesis by simp
qed

lemma step_inv:
  "step db db' \<Longrightarrow> unique_ids db \<Longrightarrow> required_present db \<Longrightarrow>
   unique_ids db' \<and> required_present db'"
  using step_rows [of db db'] removed_inv appended_inv updated_inv
  by (auto simp add: unique_ids_def required_present_def)

lemma reachable_inv: "reachable db \<Longrightarrow> unique_ids db \<and> required_present db"
proof (induction rule: reachable.induct)
  case fresh
  then show ?case by (simp add: unique_ids_def required_present_def rows_of_def)
next
  case (after db db')
  then show ?case using step_inv by blast
qed

lemma step_ids:
  assumes "step db db'"
  shows "map scan_id (rows_of db') = map scan_id (rows_of db)
         \<or> (\<exists>i. map scan_id (rows_of db') = filter (\<lambda>j. j \<noteq> i) (map scan_id (rows_of db)))
         \<or> (\<exists>j. j \<notin> set (map scan_id (rows_of db))
                \<and> map scan_id (rows_of db') = map scan_id (rows_of db) @ [j])"
proof -
  from step_rows [OF assms] consider
      "rows_of db' = rows_of db" | "removed db db'" | "appended db db'" | "updated db db'"
    by blast
  then show ?thesis
  proof cases
    case 1
    then show ?thesis by simp
  next
    case 2
    then obtain i where
      i: "rows_of db' = filter (\<lambda>r. Number (scan_id r) \<noteq> i) (rows_of db)"
      unfolding removed_def by blast
    show ?thesis
    proof (cases "\<exists>n. i = Number n")
      case True
      then obtain n where "i = Number n" by blast
      with i have "map scan_id (rows_of db') = filter (\<lambda>j. j \<noteq> n) (map scan_id (rows_of db))"
        by (simp add: filter_map comp_def)
      then show ?thesis by blast
    next
      case False
      then have n: "Number (scan_id r) \<noteq> i" for r by metis
      have "filter (\<lambda>r. Number (scan_id r) \<noteq> i) (rows_of db) = rows_of db"
        by (simp add: filter_id_conv n)
      with i have "rows_of db' = rows_of db" by simp
      then show ?thesis by simp
    qed
  next
    case 3
    then show ?thesis unfolding appended_def by auto
  next
    case 4
    then have "map scan_id (rows_of db') = map scan_id (rows_of db)"
      unfolding updated_def by (auto simp add: map_update_frame simp del: map_map)
    then show ?thesis by simp
  qed
qed

text \<open>
  C7, as amended. In every reachable database state the ids of the stored records are
  pairwise distinct and every record has its \<^verbatim>\<open>qr_data\<close> and its \<^verbatim>\<open>timestamp\<close>; every
  operation preserves both; and no operation changes the id of a stored record: the id
  column after an operation is the one before it, or that with one id removed, or that with
  one fresh id appended.
\<close>

theorem stored_records_invariant:
  "(reachable db \<longrightarrow> unique_ids db \<and> required_present db)
   \<and> (step db db' \<longrightarrow> unique_ids db \<longrightarrow> required_present db \<longrightarrow>
        unique_ids db' \<and> required_present db')
   \<and> (step db db' \<longrightarrow>
        map scan_id (rows_of db') = map scan_id (rows_of db)
        \<or> (\<exists>i. map scan_id (rows_of db') = filter (\<lambda>j. j \<noteq> i) (map scan_id (rows_of db)))
        \<or> (\<exists>j. j \<notin> set (map scan_id (rows_of db))
               \<and> map scan_id (rows_of db') = map scan_id (rows_of db) @ [j]))"
  using reachable_inv [of db] step_inv [of db db'] step_ids [of db db'] by blast

lemma example_table_step:
  "snd (addScan_p3 ''2023-11-14 22:13:20'' None example_scan) = example_table"
  by (simp add: addScan_p3_def initDatabase_p3_def create_table_if_not_exists_def
        insert_into_scans_def nullish_null_def MAX_ROWID_def example_scan_def
        example_table_def example_row_def)

theorem stored_records_invariant_witness:
  "reachable example_table \<and> step None example_table
   \<and> unique_ids example_table \<and> required_present example_table
   \<and> map scan_id (rows_of example_table) = map scan_id (rows_of None) @ [1]"
proof -
  have s: "step None example_table"
    using create_p3 [of None "''2023-11-14 22:13:20''" example_scan]
    by (simp only: example_table_step)
  have r: "reachable example_table"
    using fresh s by (rule after)
  have u: "unique_ids None" "required_present None"
    by (simp_all add: unique_ids_def required_present_def rows_of_def)
  from stored_records_invariant [of example_table None] r
  have a: "unique_ids example_table \<and> required_present example_table" by blast
  have b: "map scan_id (rows_of example_table) = map scan_id (rows_of None) @ [1]"
    by (simp add: rows_of_def example_table_def example_row_def)
  from s r a b show ?thesis by simp
qed

text \<open>
  C7, as stated, fails: an update that provides a latitude only, on a record created
  without a location, leaves a reachable state in which a record has a latitude and no
  longitude.
\<close>

theorem PUT_unpairs_location:
  "reachable (fst (snd (PUT (snd (addScan_p3 ''2023-11-14 22:13:20'' None unlocated_scan)) ''1''
                (JsonObject (empty_body\<lparr>latitude := Some 5\<rparr>)))))
   \<and> location_paired (snd (addScan_p3 ''2023-11-14 22:13:20'' None unlocated_scan))
   \<and> \<not> location_paired
        (fst (snd (PUT (snd (addScan_p3 ''2023-11-14 22:13:20'' None unlocated_scan)) ''1''
                (JsonObject (empty_body\<lparr>latitude := Some 5\<rparr>)))))"
proof -
  have "reachable (snd (addScan_p3 ''2023-11-14 22:13:20'' None unlocated_scan))"
    using fresh create_p3 by (rule after)
  then have "reachable (fst (snd (PUT (snd (addScan_p3 ''2023-11-14 22:13:20'' None unlocated_scan)) ''1''
                (JsonObject (empty_body\<lparr>latitude := Some 5\<rparr>)))))"
    using route_put by (rule after)
  moreover have "snd (addScan_p3 ''2023-11-14 22:13:20'' None unlocated_scan) =
      Some \<lparr>rows = [\<lparr>qr_data = Some ''x'', latitude = None, longitude = None, altitude = None,
                     accuracy = None, timestamp = Some 1, scan_id = 1,
                     created_at = ''2023-11-14 22:13:20''\<rparr>], sqlite_sequence = 1\<rparr>"
    by (simp add: addScan_p3_def initDatabase_p3_def create_table_if_not_exists_def
        insert_into_scans_def nullish_null_def MAX_ROWID_def unlocated_scan_def empty_body_def)
  ultimately show ?thesis
    by (simp add: location_paired_def rows_of_def PUT_def PUT_try_def parseInt_defs
        select_where_id_def update_coalesce_where_id_def set_coalesce_def COALESCE_def
        or_null_num_def or_null_str_def empty_body_def)
qed

section \<open>Persistence failures on the capture screen\<close>

lemma saveScanToDatabase_resolves: "fst (saveScanToDatabase f sr) = Inr ()"
  by (simp add: saveScanToDatabase_def split: prod.splits sum.splits)

lemma saveScanToDatabase_logs:
  "persistence_fails f \<Longrightarrow>
   \<exists>e. last (snd (saveScanToDatabase f sr)) = ConsoleError ''Error saving scan:'' e"
  by (cases f)
     (auto simp add: persistence_fails_def saveScanToDatabase_def saveScanToDatabase_try_def
        Let_def split: sum.splits if_splits)

lemma handleBarCodeScanned_resolves: "fst (handleBarCodeScanned env st d) = Inr ()"
  by (simp add: handleBarCodeScanned_def split: prod.splits sum.splits)

lemma handleBarCodeScanned_located:
  assumes "locationPermission st \<longrightarrow> getCurrentPositionAsync env = Inr loc"
  shows "handleBarCodeScanned env st d =
     (Inr (),
      st\<lparr>current_location := (if locationPermission st then Some loc else current_location st),
         lastScan := Some \<lparr>data = d,
                          location = (if locationPermission st then Some loc else current_location st),
                          scan_timestamp = Date_now env\<rparr>,
         scanCount := scanCount st + 1\<rparr>,
      snd (saveScanToDatabase (fetch env)
             \<lparr>data = d,
              location = (if locationPermission st then Some loc else current_location st),
              scan_timestamp = Date_now env\<rparr>)
      @ [ShowNotification scanned_message])"
proof (cases "locationPermission st")
  case True
  with assms have g: "getCurrentPositionAsync env = Inr loc" by simp
  obtain evs where s: "saveScanToDatabase (fetch env)
         \<lparr>data = d, location = Some loc, scan_timestamp = Date_now env\<rparr> = (Inr (), evs)"
    using saveScanToDatabase_resolves
    by (metis prod.collapse)
  from True g s show ?thesis
    by (simp add: handleBarCodeScanned_def handleBarCodeScanned_try_def Let_def)
next
  case False
  obtain evs where s: "saveScanToDatabase (fetch env)
         \<lparr>data = d, location = current_location st, scan_timestamp = Date_now env\<rparr> = (Inr (), evs)"
    using saveScanToDatabase_resolves
    by (metis prod.collapse)
  from False s show ?thesis
    by (simp add: handleBarCodeScanned_def handleBarCodeScanned_try_def Let_def)
qed

lemma saveScanToDatabase_nonempty: "snd (saveScanToDatabase f sr) \<noteq> []"
  by (cases f)
     (auto simp add: saveScanToDatabase_def saveScanToDatabase_try_def Let_def
        split: sum.splits if_splits)

text \<open>
  What holds of a persistence failure: neither \<^verbatim>\<open>saveScanToDatabase\<close> nor the capture
  handler ever throws. A failure of the \<^verbatim>\<open>POST /scans\<close> request (a rejected \<^verbatim>\<open>fetch\<close>, a
  response that is not \<^verbatim>\<open>ok\<close>, a body that does not parse) is caught and logged with
  \<^verbatim>\<open>console.error\<close>, and when the location could be read (or was not asked for) the
  capture still completes: the scan becomes the last scan and the count goes up by one.
\<close>

theorem persistence_failure_contained:
  "fst (saveScanToDatabase f sr) = Inr ()
   \<and> fst (handleBarCodeScanned env st d) = Inr ()
   \<and> (persistence_fails f \<longrightarrow>
        (\<exists>e. last (snd (saveScanToDatabase f sr)) = ConsoleError ''Error saving scan:'' e))
   \<and> (persistence_fails (fetch env) \<longrightarrow>
       (locationPermission st \<longrightarrow> getCurrentPositionAsync env = Inr loc) \<longrightarrow>
        (\<exists>e. ConsoleError ''Error saving scan:'' e \<in> set (snd (snd (handleBarCodeScanned env st d))))
        \<and> scanCount (fst (snd (handleBarCodeScanned env st d))) = scanCount st + 1
        \<and> map_option data (lastScan (fst (snd (handleBarCodeScanned env st d)))) = Some d)"
proof -
  let ?sr = "\<lparr>data = d,
              location = (if locationPermission st then Some loc else current_location st),
              scan_timestamp = Date_now env\<rparr>"
  have c: "(\<exists>e. ConsoleError ''Error saving scan:'' e \<in> set (snd (snd (handleBarCodeScanned env st d))))
        \<and> scanCount (fst (snd (handleBarCodeScanned env st d))) = scanCount st + 1
        \<and> map_option data (lastScan (fst (snd (handleBarCodeScanned env st d)))) = Some d"
    if p: "persistence_fails (fetch env)"
      and l: "locationPermission st \<longrightarrow> getCurrentPositionAsync env = Inr loc"
  proof -
    from saveScanToDatabase_logs [OF p, of ?sr] obtain e where
      "last (snd (saveScanToDatabase (fetch env) ?sr)) = ConsoleError ''Error saving scan:'' e"
      by blast
    with saveScanToDatabase_nonempty [of "fetch env" ?sr]
    have "ConsoleError ''Error saving scan:'' e \<in> set (snd (saveScanToDatabase (fetch env) ?sr))"
      by (metis last_in_set)
    then show ?thesis
      by (auto simp add: handleBarCodeScanned_located [OF l])
  qed
  show ?thesis
    using c saveScanToDatabase_logs [of f sr]
    by (simp add: saveScanToDatabase_resolves handleBarCodeScanned_resolves)
qed

theorem persistence_failure_contained_witness:
  "persistence_fails (fetch offline)
   \<and> fst (saveScanToDatabase (fetch offline) unsaved_result) = Inr ()
   \<and> fst (handleBarCodeScanned offline initial_screen ''abc'') = Inr ()
   \<and> scanCount (fst (snd (handleBarCodeScanned offline initial_screen ''abc''))) = 1
   \<and> map_option data (lastScan (fst (snd (handleBarCodeScanned offline initial_screen ''abc'')))) =
       Some ''abc''"
proof -
  have a: "persistence_fails (fetch offline)"
    by (simp add: persistence_fails_def offline_def)
  have b: "locationPermission initial_screen \<longrightarrow>
           getCurrentPositionAsync offline =
             Inr \<lparr>coords_latitude = 0, coords_longitude = 0, coords_altitude = None,
                  coords_accuracy = None\<rparr>"
    by (simp add: initial_screen_def)
  show ?thesis
    using a b
      persistence_failure_contained [of "fetch offline" unsaved_result offline initial_screen
        "''abc''" "\<lparr>coords_latitude = 0, coords_longitude = 0, coords_altitude = None,
                  coords_accuracy = None\<rparr>"]
    by (simp add: initial_screen_def)
qed

text \<open>
  C9. The claim has a persistence failure surfaced to the user as a notification. On a
  device whose request fails, the user sees what the user sees when the request succeeds:
  the banner that the code was scanned, and no alert. \<^verbatim>\<open>saveScanToDatabase\<close> catches the
  error and logs it, so the handler, which alerts the user about whatever it catches, has
  nothing to catch.
\<close>

theorem persistence_failure_not_shown:
  "persistence_fails (fetch offline)
   \<and> user_visible (snd (snd (handleBarCodeScanned offline initial_screen ''abc''))) =
       [ShowNotification scanned_message]
   \<and> user_visible (snd (snd (handleBarCodeScanned online initial_screen ''abc''))) =
       [ShowNotification scanned_message]"
  by (simp add: persistence_fails_def offline_def online_def initial_screen_def
        handleBarCodeScanned_def handleBarCodeScanned_try_def saveScanToDatabase_def
        saveScanToDatabase_try_def user_visible_def Let_def)

end
